theory Spec2Isabelle
  imports Main "HOL-Library.Word" "HOL-Library.State_Monad"
begin

unbundle bit_operations_syntax

section \<open>The PIO register block and the types of pio.c\<close>

text \<open>
  \<^verbatim>\<open>pio.c\<close> includes \<^verbatim>\<open>chip.h\<close>, which declares the register block \<^verbatim>\<open>Pio\<close>, the
  enumeration \<^verbatim>\<open>EPioType\<close> and the attribute macros. The header is not among the
  sources, so the record below has one field for every register that \<^verbatim>\<open>pio.c\<close>
  names (the two-element array \<^verbatim>\<open>PIO_ABCDSR\<close> is the pair of fields
  \<open>PIO_ABCDSR_0\<close>, \<open>PIO_ABCDSR_1\<close>; the file only indexes it with the constants 0
  and 1). All functions are stated over the extensible record, so every other
  register of the block lives in the \<open>more\<close> part and is covered by the frame
  statements. A register is plain memory: a read returns the last value written.
\<close>

type_synonym uint32_t = "32 word"

record Pio =
  PIO_PER :: uint32_t
  PIO_PDR :: uint32_t
  PIO_PSR :: uint32_t
  PIO_OER :: uint32_t
  PIO_ODR :: uint32_t
  PIO_OSR :: uint32_t
  PIO_IFER :: uint32_t
  PIO_IFDR :: uint32_t
  PIO_SODR :: uint32_t
  PIO_CODR :: uint32_t
  PIO_ODSR :: uint32_t
  PIO_PDSR :: uint32_t
  PIO_IDR :: uint32_t
  PIO_MDER :: uint32_t
  PIO_MDDR :: uint32_t
  PIO_PUDR :: uint32_t
  PIO_PUER :: uint32_t
  PIO_ABCDSR_0 :: uint32_t
  PIO_ABCDSR_1 :: uint32_t
  PIO_IFSCDR :: uint32_t
  PIO_IFSCER :: uint32_t
  PIO_SCDR :: uint32_t

text \<open>
  The eight enumerators of \<^verbatim>\<open>EPioType\<close> that the two switches of \<^verbatim>\<open>pio.c\<close> name. A
  role is one of them: an integer outside the enumeration, cast to the type, is not an
  input of the model.
\<close>

datatype EPioType =
    PIO_NOT_A_PIN
  | PIO_PERIPH_A
  | PIO_PERIPH_B
  | PIO_PERIPH_C
  | PIO_PERIPH_D
  | PIO_INPUT
  | PIO_OUTPUT_0
  | PIO_OUTPUT_1

text \<open>
  The attribute macros \<^verbatim>\<open>PIO_PULLUP\<close>, \<^verbatim>\<open>PIO_DEGLITCH\<close>, \<^verbatim>\<open>PIO_OPENDRAIN\<close> and
  \<^verbatim>\<open>PIO_DEBOUNCE\<close> come from the absent header too. Their values are a parameter of
  the functions that test them; every theorem below holds for all values.
\<close>

record attribute_macros =
  PIO_PULLUP :: uint32_t
  PIO_DEGLITCH :: uint32_t
  PIO_OPENDRAIN :: uint32_t
  PIO_DEBOUNCE :: uint32_t

text \<open>
  The only operation of the file that can trap is the unsigned division in
  \<^verbatim>\<open>PIO_SetDebounceFilter\<close>; HOL's \<open>div\<close> returns 0 for a zero divisor, so the zero
  test is written out and the trap is a value.
\<close>

datatype fault = DivideByZero

definition udiv :: "uint32_t \<Rightarrow> uint32_t \<Rightarrow> fault + uint32_t" where
  "udiv a b = (if b = 0 then Inl DivideByZero else Inr (a div b))"

section \<open>The functions of pio.c\<close>

text \<open>
  A C function \<^verbatim>\<open>T f(Pio* pPio, ...)\<close> is a state transformer on the register block
  that returns a \<open>T\<close>; a \<^verbatim>\<open>void\<close> function returns \<open>unit\<close>. A C condition
  \<^verbatim>\<open>if (e)\<close> on a \<^verbatim>\<open>uint32_t\<close> is \<open>e \<noteq> 0\<close>.
\<close>

definition PIO_DisableInterrupt :: "uint32_t \<Rightarrow> ('a Pio_scheme, unit) state" where
  "PIO_DisableInterrupt dwMask =
     State_Monad.update (\<lambda>pPio. pPio\<lparr>PIO_IDR := dwMask\<rparr>)"

definition PIO_PullUp :: "uint32_t \<Rightarrow> uint32_t \<Rightarrow> ('a Pio_scheme, unit) state" where
  "PIO_PullUp dwMask dwPullUpEnable =
     (if dwPullUpEnable \<noteq> 0
      then State_Monad.update (\<lambda>pPio. pPio\<lparr>PIO_PUER := dwMask\<rparr>)
      else State_Monad.update (\<lambda>pPio. pPio\<lparr>PIO_PUDR := dwMask\<rparr>))"

text \<open>
  \<^verbatim>\<open>pPio->PIO_SCDR = ((32678/(2*(dwCuttOff))) - 1) & 0x3FFF\<close>: the product, the quotient
  and the difference are \<^verbatim>\<open>uint32_t\<close> operations (the \<^verbatim>\<open>int\<close> literals are converted
  to the unsigned operand's type), so all three wrap modulo \<open>2 ^ 32\<close>. The store to
  \<^verbatim>\<open>PIO_IFSCER\<close> precedes the division.
\<close>

definition PIO_SetDebounceFilter ::
    "uint32_t \<Rightarrow> uint32_t \<Rightarrow> ('a Pio_scheme, fault + unit) state" where
  "PIO_SetDebounceFilter dwMask dwCuttOff = do {
     State_Monad.update (\<lambda>pPio. pPio\<lparr>PIO_IFSCER := dwMask\<rparr>);
     case udiv 32678 (2 * dwCuttOff) of
       Inl f \<Rightarrow> State_Monad.return (Inl f)
     | Inr q \<Rightarrow> do {
         State_Monad.update (\<lambda>pPio. pPio\<lparr>PIO_SCDR := (q - 1) AND 0x3FFF\<rparr>);
         State_Monad.return (Inr ())
       }
   }"

definition PIO_Set :: "uint32_t \<Rightarrow> ('a Pio_scheme, unit) state" where
  "PIO_Set dwMask = State_Monad.update (\<lambda>pPio. pPio\<lparr>PIO_SODR := dwMask\<rparr>)"

definition PIO_Get :: "EPioType \<Rightarrow> uint32_t \<Rightarrow> ('a Pio_scheme, uint32_t) state" where
  "PIO_Get dwType dwMask = do {
     pPio \<leftarrow> State_Monad.get;
     let dwReg = (if dwType = PIO_OUTPUT_0 \<or> dwType = PIO_OUTPUT_1
                  then PIO_ODSR pPio else PIO_PDSR pPio);
     if dwReg AND dwMask = 0 then State_Monad.return 0 else State_Monad.return 1
   }"

definition PIO_Clear :: "uint32_t \<Rightarrow> ('a Pio_scheme, unit) state" where
  "PIO_Clear dwMask = State_Monad.update (\<lambda>pPio. pPio\<lparr>PIO_CODR := dwMask\<rparr>)"

text \<open>
  The switch of \<^verbatim>\<open>PIO_SetPeripheral\<close> either breaks (the four peripheral cases) or
  returns from the function (the other four). \<open>PIO_SetPeripheral_switch\<close> is the
  switch and yields \<open>True\<close> when it has returned; the store to \<^verbatim>\<open>PIO_PDR\<close> after it
  runs only otherwise. \<^verbatim>\<open>r &= e\<close> reads \<open>r\<close> again and stores \<open>r AND e\<close>.
\<close>

definition PIO_SetPeripheral_switch ::
    "EPioType \<Rightarrow> uint32_t \<Rightarrow> ('a Pio_scheme, bool) state" where
  "PIO_SetPeripheral_switch dwType dwMask =
     (case dwType of
        PIO_PERIPH_A \<Rightarrow> do {
          pPio \<leftarrow> State_Monad.get;
          let dwABCDSR = PIO_ABCDSR_0 pPio;
          State_Monad.update (\<lambda>pPio.
            pPio\<lparr>PIO_ABCDSR_0 := PIO_ABCDSR_0 pPio AND (NOT dwMask AND dwABCDSR)\<rparr>);
          pPio \<leftarrow> State_Monad.get;
          let dwABCDSR = PIO_ABCDSR_1 pPio;
          State_Monad.update (\<lambda>pPio.
            pPio\<lparr>PIO_ABCDSR_1 := PIO_ABCDSR_1 pPio AND (NOT dwMask AND dwABCDSR)\<rparr>);
          State_Monad.return False
        }
      | PIO_PERIPH_B \<Rightarrow> do {
          pPio \<leftarrow> State_Monad.get;
          let dwABCDSR = PIO_ABCDSR_0 pPio;
          State_Monad.update (\<lambda>pPio. pPio\<lparr>PIO_ABCDSR_0 := dwMask OR dwABCDSR\<rparr>);
          pPio \<leftarrow> State_Monad.get;
          let dwABCDSR = PIO_ABCDSR_1 pPio;
          State_Monad.update (\<lambda>pPio.
            pPio\<lparr>PIO_ABCDSR_1 := PIO_ABCDSR_1 pPio AND (NOT dwMask AND dwABCDSR)\<rparr>);
          State_Monad.return False
        }
      | PIO_PERIPH_C \<Rightarrow> do {
          pPio \<leftarrow> State_Monad.get;
          let dwABCDSR = PIO_ABCDSR_0 pPio;
          State_Monad.update (\<lambda>pPio.
            pPio\<lparr>PIO_ABCDSR_0 := PIO_ABCDSR_0 pPio AND (NOT dwMask AND dwABCDSR)\<rparr>);
          pPio \<leftarrow> State_Monad.get;
          let dwABCDSR = PIO_ABCDSR_1 pPio;
          State_Monad.update (\<lambda>pPio. pPio\<lparr>PIO_ABCDSR_1 := dwMask OR dwABCDSR\<rparr>);
          State_Monad.return False
        }
      | PIO_PERIPH_D \<Rightarrow> do {
          pPio \<leftarrow> State_Monad.get;
          let dwABCDSR = PIO_ABCDSR_0 pPio;
          State_Monad.update (\<lambda>pPio. pPio\<lparr>PIO_ABCDSR_0 := dwMask OR dwABCDSR\<rparr>);
          pPio \<leftarrow> State_Monad.get;
          let dwABCDSR = PIO_ABCDSR_1 pPio;
          State_Monad.update (\<lambda>pPio. pPio\<lparr>PIO_ABCDSR_1 := dwMask OR dwABCDSR\<rparr>);
          State_Monad.return False
        }
      | PIO_INPUT \<Rightarrow> State_Monad.return True
      | PIO_OUTPUT_0 \<Rightarrow> State_Monad.return True
      | PIO_OUTPUT_1 \<Rightarrow> State_Monad.return True
      | PIO_NOT_A_PIN \<Rightarrow> State_Monad.return True)"

definition PIO_SetPeripheral :: "EPioType \<Rightarrow> uint32_t \<Rightarrow> ('a Pio_scheme, unit) state" where
  "PIO_SetPeripheral dwType dwMask = do {
     State_Monad.update (\<lambda>pPio. pPio\<lparr>PIO_IDR := dwMask\<rparr>);
     returned \<leftarrow> PIO_SetPeripheral_switch dwType dwMask;
     if returned then State_Monad.return ()
     else State_Monad.update (\<lambda>pPio. pPio\<lparr>PIO_PDR := dwMask\<rparr>)
   }"

definition PIO_SetInput ::
    "attribute_macros \<Rightarrow> uint32_t \<Rightarrow> uint32_t \<Rightarrow> ('a Pio_scheme, unit) state" where
  "PIO_SetInput K dwMask dwAttribute = do {
     PIO_DisableInterrupt dwMask;
     PIO_PullUp dwMask (dwAttribute AND PIO_PULLUP K);
     (if dwAttribute AND (PIO_DEGLITCH K OR PIO_DEBOUNCE K) \<noteq> 0
      then State_Monad.update (\<lambda>pPio. pPio\<lparr>PIO_IFER := dwMask\<rparr>)
      else State_Monad.update (\<lambda>pPio. pPio\<lparr>PIO_IFDR := dwMask\<rparr>));
     (if dwAttribute AND PIO_DEGLITCH K \<noteq> 0
      then State_Monad.update (\<lambda>pPio. pPio\<lparr>PIO_IFSCDR := dwMask\<rparr>)
      else if dwAttribute AND PIO_DEBOUNCE K \<noteq> 0
      then State_Monad.update (\<lambda>pPio. pPio\<lparr>PIO_IFSCER := dwMask\<rparr>)
      else State_Monad.return ());
     State_Monad.update (\<lambda>pPio. pPio\<lparr>PIO_ODR := dwMask\<rparr>);
     State_Monad.update (\<lambda>pPio. pPio\<lparr>PIO_PER := dwMask\<rparr>)
   }"

definition PIO_SetOutput ::
    "uint32_t \<Rightarrow> uint32_t \<Rightarrow> uint32_t \<Rightarrow> uint32_t \<Rightarrow> ('a Pio_scheme, unit) state" where
  "PIO_SetOutput dwMask dwDefaultValue dwMultiDriveEnable dwPullUpEnable = do {
     PIO_DisableInterrupt dwMask;
     PIO_PullUp dwMask dwPullUpEnable;
     (if dwMultiDriveEnable \<noteq> 0
      then State_Monad.update (\<lambda>pPio. pPio\<lparr>PIO_MDER := dwMask\<rparr>)
      else State_Monad.update (\<lambda>pPio. pPio\<lparr>PIO_MDDR := dwMask\<rparr>));
     (if dwDefaultValue \<noteq> 0
      then State_Monad.update (\<lambda>pPio. pPio\<lparr>PIO_SODR := dwMask\<rparr>)
      else State_Monad.update (\<lambda>pPio. pPio\<lparr>PIO_CODR := dwMask\<rparr>));
     State_Monad.update (\<lambda>pPio. pPio\<lparr>PIO_OER := dwMask\<rparr>);
     State_Monad.update (\<lambda>pPio. pPio\<lparr>PIO_PER := dwMask\<rparr>)
   }"

text \<open>
  In \<^verbatim>\<open>PIO_Configure\<close> the four peripheral labels share one body, the two output
  labels another, and \<^verbatim>\<open>default\<close> (which only \<^verbatim>\<open>PIO_NOT_A_PIN\<close> reaches) returns 0
  at once; the other bodies break and the function returns 1.
\<close>

definition PIO_Configure_periph ::
    "attribute_macros \<Rightarrow> EPioType \<Rightarrow> uint32_t \<Rightarrow> uint32_t \<Rightarrow> ('a Pio_scheme, uint32_t) state" where
  "PIO_Configure_periph K dwType dwMask dwAttribute = do {
     PIO_SetPeripheral dwType dwMask;
     PIO_DisableInterrupt dwMask;
     PIO_PullUp dwMask (dwAttribute AND PIO_PULLUP K);
     State_Monad.return 1
   }"

definition PIO_Configure_output ::
    "attribute_macros \<Rightarrow> EPioType \<Rightarrow> uint32_t \<Rightarrow> uint32_t \<Rightarrow> ('a Pio_scheme, uint32_t) state" where
  "PIO_Configure_output K dwType dwMask dwAttribute = do {
     PIO_SetOutput dwMask (if dwType = PIO_OUTPUT_1 then 1 else 0)
       (if dwAttribute AND PIO_OPENDRAIN K \<noteq> 0 then 1 else 0)
       (if dwAttribute AND PIO_PULLUP K \<noteq> 0 then 1 else 0);
     State_Monad.return 1
   }"

definition PIO_Configure ::
    "attribute_macros \<Rightarrow> EPioType \<Rightarrow> uint32_t \<Rightarrow> uint32_t \<Rightarrow> ('a Pio_scheme, uint32_t) state" where
  "PIO_Configure K dwType dwMask dwAttribute =
     (case dwType of
        PIO_PERIPH_A \<Rightarrow> PIO_Configure_periph K dwType dwMask dwAttribute
      | PIO_PERIPH_B \<Rightarrow> PIO_Configure_periph K dwType dwMask dwAttribute
      | PIO_PERIPH_C \<Rightarrow> PIO_Configure_periph K dwType dwMask dwAttribute
      | PIO_PERIPH_D \<Rightarrow> PIO_Configure_periph K dwType dwMask dwAttribute
      | PIO_INPUT \<Rightarrow> do { PIO_SetInput K dwMask dwAttribute; State_Monad.return 1 }
      | PIO_OUTPUT_0 \<Rightarrow> PIO_Configure_output K dwType dwMask dwAttribute
      | PIO_OUTPUT_1 \<Rightarrow> PIO_Configure_output K dwType dwMask dwAttribute
      | PIO_NOT_A_PIN \<Rightarrow> State_Monad.return 0)"

definition PIO_GetOutputDataStatus :: "uint32_t \<Rightarrow> ('a Pio_scheme, uint32_t) state" where
  "PIO_GetOutputDataStatus dwMask = do {
     pPio \<leftarrow> State_Monad.get;
     if PIO_PSR pPio AND dwMask \<noteq> 0
     then (if PIO_OSR pPio AND dwMask \<noteq> 0 then State_Monad.return 1 else State_Monad.return 0)
     else State_Monad.return 0
   }"

section \<open>The divider formula of the specification\<close>

text \<open>
  The specification's formula for the debounce divider, word for word, over the
  unbounded integers (exact integer division): \<open>((32768 / (2 * cutoff)) - 1) & 0x3FFF\<close>.
\<close>

definition divider_spec :: "int \<Rightarrow> int" where
  "divider_spec cutoff = (32768 div (2 * cutoff) - 1) AND 0x3FFF"

section \<open>Concrete inputs\<close>

text \<open>A register block with every register cleared, for concrete runs.\<close>

definition pio_reset :: Pio where
  "pio_reset = \<lparr>PIO_PER = 0, PIO_PDR = 0, PIO_PSR = 0, PIO_OER = 0, PIO_ODR = 0,
     PIO_OSR = 0, PIO_IFER = 0, PIO_IFDR = 0, PIO_SODR = 0, PIO_CODR = 0, PIO_ODSR = 0,
     PIO_PDSR = 0, PIO_IDR = 0, PIO_MDER = 0, PIO_MDDR = 0, PIO_PUDR = 0, PIO_PUER = 0,
     PIO_ABCDSR_0 = 0, PIO_ABCDSR_1 = 0, PIO_IFSCDR = 0, PIO_IFSCER = 0, PIO_SCDR = 0\<rparr>"

text \<open>
  One admissible assignment of the attribute macros, four distinct single bits, used
  only where a statement is run on concrete numbers.
\<close>

definition sample_macros :: attribute_macros where
  "sample_macros = \<lparr>PIO_PULLUP = 1, PIO_DEGLITCH = 2, PIO_OPENDRAIN = 4, PIO_DEBOUNCE = 8\<rparr>"

section \<open>Auxiliary facts\<close>

text \<open>Doubling a 32-bit value gives 0 exactly for 0 and for \<open>2 ^ 31\<close>.\<close>

lemma double_nat_zero:
  assumes "n < 4294967296"
  shows "(2 * n mod 4294967296 = 0) = (n = 0 \<or> n = (2147483648::nat))"
proof -
  have e: "2 * n mod 4294967296 = 2 * (n mod 2147483648)"
    using mult_mod_right [of 2 n 2147483648] by simp
  have d: "n = 2147483648 * (n div 2147483648) + n mod 2147483648"
    by simp
  have q: "n div 2147483648 < 2"
    using assms by (simp add: div_less_iff_less_mult)
  show ?thesis
  proof
    assume "2 * n mod 4294967296 = 0"
    with e have r: "n mod 2147483648 = 0" by simp
    from q have "n div 2147483648 = 0 \<or> n div 2147483648 = 1" by linarith
    with d r show "n = 0 \<or> n = 2147483648" by auto
  next
    assume "n = 0 \<or> n = 2147483648"
    then show "2 * n mod 4294967296 = 0" by auto
  qed
qed

lemma double_word_zero: "(2 * c = 0) = (c = 0 \<or> c = (0x80000000 :: uint32_t))"
proof -
  have b: "unat c < 4294967296" using unsigned_less [of c] by simp
  have "(2 * c = 0) = (unat (2 * c) = 0)" by (simp add: unat_0_iff)
  also have "\<dots> = (2 * unat c mod 4294967296 = 0)" by (simp add: unat_word_ariths)
  also have "\<dots> = (unat c = 0 \<or> unat c = 2147483648)" by (rule double_nat_zero [OF b])
  also have "\<dots> = (c = 0 \<or> c = 0x80000000)"
  proof -
    have "(unat c = 2147483648) = (unat c = unat (0x80000000 :: uint32_t))" by simp
    also have "\<dots> = (c = 0x80000000)" by (rule word_unat_eq_iff [symmetric])
    finally show ?thesis by (simp add: unat_0_iff)
  qed
  finally show ?thesis .
qed

text \<open>A masked register is non-zero exactly when some bit of the mask is set in it.\<close>

lemma and_nonzero_bit: "(w AND m \<noteq> 0) = (\<exists>i. bit m i \<and> bit w i)"
  for w m :: uint32_t
proof
  assume "w AND m \<noteq> 0"
  then obtain i where "bit (w AND m) i"
    by (auto simp add: bit_eq_iff)
  then show "\<exists>i. bit m i \<and> bit w i"
    by (auto simp add: bit_and_iff)
next
  assume "\<exists>i. bit m i \<and> bit w i"
  then obtain i where "bit m i" and "bit w i"
    by blast
  then have "bit (w AND m) i"
    by (simp add: bit_and_iff)
  then show "w AND m \<noteq> 0"
    by auto
qed

section \<open>The runs of the peripheral selection\<close>

text \<open>The whole effect of \<^verbatim>\<open>PIO_SetPeripheral\<close>, role by role.\<close>

lemma PIO_SetPeripheral_A:
  "run_state (PIO_SetPeripheral PIO_PERIPH_A m) p =
     ((), p\<lparr>PIO_IDR := m, PIO_ABCDSR_0 := PIO_ABCDSR_0 p AND NOT m,
            PIO_ABCDSR_1 := PIO_ABCDSR_1 p AND NOT m, PIO_PDR := m\<rparr>)"
  by (simp add: PIO_SetPeripheral_def PIO_SetPeripheral_switch_def State_Monad.update_def
      and.commute and.left_commute)

lemma PIO_SetPeripheral_B:
  "run_state (PIO_SetPeripheral PIO_PERIPH_B m) p =
     ((), p\<lparr>PIO_IDR := m, PIO_ABCDSR_0 := PIO_ABCDSR_0 p OR m,
            PIO_ABCDSR_1 := PIO_ABCDSR_1 p AND NOT m, PIO_PDR := m\<rparr>)"
  by (simp add: PIO_SetPeripheral_def PIO_SetPeripheral_switch_def State_Monad.update_def
      and.commute and.left_commute or.commute)

lemma PIO_SetPeripheral_C:
  "run_state (PIO_SetPeripheral PIO_PERIPH_C m) p =
     ((), p\<lparr>PIO_IDR := m, PIO_ABCDSR_0 := PIO_ABCDSR_0 p AND NOT m,
            PIO_ABCDSR_1 := PIO_ABCDSR_1 p OR m, PIO_PDR := m\<rparr>)"
  by (simp add: PIO_SetPeripheral_def PIO_SetPeripheral_switch_def State_Monad.update_def
      and.commute and.left_commute or.commute)

lemma PIO_SetPeripheral_D:
  "run_state (PIO_SetPeripheral PIO_PERIPH_D m) p =
     ((), p\<lparr>PIO_IDR := m, PIO_ABCDSR_0 := PIO_ABCDSR_0 p OR m,
            PIO_ABCDSR_1 := PIO_ABCDSR_1 p OR m, PIO_PDR := m\<rparr>)"
  by (simp add: PIO_SetPeripheral_def PIO_SetPeripheral_switch_def State_Monad.update_def
      and.commute and.left_commute or.commute)

lemma PIO_SetPeripheral_returns_early:
  "run_state (PIO_SetPeripheral PIO_INPUT m) p = ((), p\<lparr>PIO_IDR := m\<rparr>)"
  "run_state (PIO_SetPeripheral PIO_OUTPUT_0 m) p = ((), p\<lparr>PIO_IDR := m\<rparr>)"
  "run_state (PIO_SetPeripheral PIO_OUTPUT_1 m) p = ((), p\<lparr>PIO_IDR := m\<rparr>)"
  "run_state (PIO_SetPeripheral PIO_NOT_A_PIN m) p = ((), p\<lparr>PIO_IDR := m\<rparr>)"
  by (simp_all add: PIO_SetPeripheral_def PIO_SetPeripheral_switch_def State_Monad.update_def)

text \<open>Clearing and setting the bits of a mask, bit by bit.\<close>

lemma bit_clear_mask: "bit (w AND NOT m) i = (if bit m i then False else bit w i)"
  for w m :: uint32_t
  by (auto simp add: bit_and_iff bit_not_iff dest: bit_imp_le_length)

lemma bit_set_mask: "bit (w OR m) i = (if bit m i then True else bit w i)"
  for w m :: uint32_t
  by (auto simp add: bit_or_iff)

text \<open>\<^verbatim>\<open>PIO_Configure\<close> returns 0 for \<^verbatim>\<open>PIO_NOT_A_PIN\<close> and 1 for every other role.\<close>

lemma PIO_Configure_returns:
  "fst (run_state (PIO_Configure K t m a) p) = (if t = PIO_NOT_A_PIN then 0 else 1)"
  by (cases t)
     (simp_all add: PIO_Configure_def PIO_Configure_periph_def PIO_Configure_output_def
        split_beta)

section \<open>The debounce divider\<close>

text \<open>
  What the function stores when the division does not trap: the source's formula,
  with the source's constant 32678, in 32-bit unsigned arithmetic.
\<close>

lemma PIO_SetDebounceFilter_stores:
  "run_state (PIO_SetDebounceFilter m c) p =
     (if 2 * c = 0 then (Inl DivideByZero, p\<lparr>PIO_IFSCER := m\<rparr>)
      else (Inr (), p\<lparr>PIO_IFSCER := m, PIO_SCDR := (32678 div (2 * c) - 1) AND 0x3FFF\<rparr>))"
  by (simp add: PIO_SetDebounceFilter_def udiv_def State_Monad.update_def)

text \<open>
  The specification's example: a cutoff of 1000 gives the divider 15, as the formula of
  the specification does.
\<close>

lemma PIO_SetDebounceFilter_cutoff_1000:
  "PIO_SCDR (snd (run_state (PIO_SetDebounceFilter m 1000) p)) = 15 \<and> divider_spec 1000 = 15"
  by (simp add: PIO_SetDebounceFilter_stores divider_spec_def)

text \<open>
  Claim C1: for every cutoff > 0 and every mask, \<^verbatim>\<open>PIO_SetDebounceFilter\<close> writes to
  the debounce-divider register exactly \<open>((32768 / (2 * cutoff)) - 1) & 0x3FFF\<close>.
  The source divides 32678, not 32768 (the slow-clock frequency \<open>2 ^ 15\<close>): at cutoff 1
  it stores 16338 in \<^verbatim>\<open>PIO_SCDR\<close>, where the formula of the claim gives 16383.
\<close>

theorem PIO_SetDebounceFilter_cutoff_1:
  "PIO_SCDR (snd (run_state (PIO_SetDebounceFilter 1 1) pio_reset)) = 16338
   \<and> divider_spec 1 = 16383"
  by (simp add: PIO_SetDebounceFilter_stores divider_spec_def pio_reset_def)

text \<open>
  Claim C8, as stated: the division traps for cutoff 0, and under the precondition
  cutoff > 0 the trap is unreachable. The divisor \<open>2 * cutoff\<close> is a 32-bit product, so
  it is also 0 for the positive cutoff \<open>2 ^ 31\<close>, where the trap is reached.
\<close>

theorem PIO_SetDebounceFilter_positive_cutoff_counterexample:
  "(0 :: uint32_t) < 0x80000000
   \<and> fst (run_state (PIO_SetDebounceFilter 1 0x80000000) pio_reset) = Inl DivideByZero"
  by (simp add: PIO_SetDebounceFilter_stores)

text \<open>
  Claim C8, amended: the division by zero is reached exactly for the cutoffs 0 and
  \<open>2 ^ 31\<close>; for every other cutoff, every mask and every register state the function
  returns normally.
\<close>

theorem PIO_SetDebounceFilter_fault_iff:
  "fst (run_state (PIO_SetDebounceFilter m c) p) =
     (if c = 0 \<or> c = 0x80000000 then Inl DivideByZero else Inr ())"
  by (simp add: PIO_SetDebounceFilter_stores double_word_zero)

section \<open>Reading the status registers\<close>

text \<open>
  What \<^verbatim>\<open>PIO_GetOutputDataStatus\<close> computes: it tests the masked pin-status register
  and the masked output-status register, one after the other.
\<close>

lemma PIO_GetOutputDataStatus_run:
  "fst (run_state (PIO_GetOutputDataStatus m) p) =
     (if (\<exists>i. bit m i \<and> bit (PIO_PSR p) i) \<and> (\<exists>j. bit m j \<and> bit (PIO_OSR p) j)
      then 1 else 0)"
  by (simp add: PIO_GetOutputDataStatus_def and_nonzero_bit)

text \<open>
  Claim C2, as stated: \<^verbatim>\<open>PIO_GetOutputDataStatus\<close> returns true only when the pin-status
  bit and the output-status bit are set at every bit position of the mask, and false
  if either is clear at any position. With the mask 3, pin status 3 and output status 1,
  pin 0 is under PIO control and an output, so the function returns 1 (its comment:
  at least one PIO of the mask), although the output-status bit of pin 1, which is in
  the mask, is clear.
\<close>

theorem PIO_GetOutputDataStatus_every_bit_counterexample:
  "fst (run_state (PIO_GetOutputDataStatus 3) (pio_reset\<lparr>PIO_PSR := 3, PIO_OSR := 1\<rparr>)) = 1
   \<and> bit (PIO_PSR (pio_reset\<lparr>PIO_PSR := 3, PIO_OSR := 1\<rparr>)) 0
   \<and> bit (PIO_OSR (pio_reset\<lparr>PIO_PSR := 3, PIO_OSR := 1\<rparr>)) 0
   \<and> bit (3 :: uint32_t) 1
   \<and> \<not> bit (PIO_OSR (pio_reset\<lparr>PIO_PSR := 3, PIO_OSR := 1\<rparr>)) 1"
  by (simp add: PIO_GetOutputDataStatus_def pio_reset_def)

text \<open>
  Claim C2, amended: \<^verbatim>\<open>PIO_GetOutputDataStatus\<close> returns 1 whenever some pin of the mask
  has both its pin-status bit and its output-status bit set, and returns 0 whenever no
  pin of the mask has its pin-status bit set or no pin of the mask has its
  output-status bit set. For a mask of one pin this is: 1 exactly when both bits of the
  pin are set.
\<close>

theorem PIO_GetOutputDataStatus_any_pin:
  "((\<exists>i. bit m i \<and> bit (PIO_PSR p) i \<and> bit (PIO_OSR p) i)
      \<longrightarrow> fst (run_state (PIO_GetOutputDataStatus m) p) = 1)
   \<and> ((\<not> (\<exists>i. bit m i \<and> bit (PIO_PSR p) i) \<or> \<not> (\<exists>i. bit m i \<and> bit (PIO_OSR p) i))
      \<longrightarrow> fst (run_state (PIO_GetOutputDataStatus m) p) = 0)"
proof (intro conjI impI)
  assume "\<exists>i. bit m i \<and> bit (PIO_PSR p) i \<and> bit (PIO_OSR p) i"
  then obtain i where "bit m i" and "bit (PIO_PSR p) i" and "bit (PIO_OSR p) i"
    by blast
  then have "(\<exists>i. bit m i \<and> bit (PIO_PSR p) i) \<and> (\<exists>j. bit m j \<and> bit (PIO_OSR p) j)"
    by blast
  then show "fst (run_state (PIO_GetOutputDataStatus m) p) = 1"
    by (simp add: PIO_GetOutputDataStatus_run)
next
  assume "\<not> (\<exists>i. bit m i \<and> bit (PIO_PSR p) i) \<or> \<not> (\<exists>i. bit m i \<and> bit (PIO_OSR p) i)"
  then have "\<not> ((\<exists>i. bit m i \<and> bit (PIO_PSR p) i) \<and> (\<exists>j. bit m j \<and> bit (PIO_OSR p) j))"
    by blast
  then show "fst (run_state (PIO_GetOutputDataStatus m) p) = 0"
    by (simp add: PIO_GetOutputDataStatus_run)
qed

theorem PIO_GetOutputDataStatus_any_pin_witness:
  "bit (3 :: uint32_t) 0
   \<and> bit (PIO_PSR (pio_reset\<lparr>PIO_PSR := 3, PIO_OSR := 1\<rparr>)) 0
   \<and> bit (PIO_OSR (pio_reset\<lparr>PIO_PSR := 3, PIO_OSR := 1\<rparr>)) 0
   \<and> fst (run_state (PIO_GetOutputDataStatus 3) (pio_reset\<lparr>PIO_PSR := 3, PIO_OSR := 1\<rparr>)) = 1
   \<and> fst (run_state (PIO_GetOutputDataStatus 3) (pio_reset\<lparr>PIO_PSR := 0, PIO_OSR := 3\<rparr>)) = 0"
proof -
  let ?p = "pio_reset\<lparr>PIO_PSR := 3, PIO_OSR := 1\<rparr>"
  let ?q = "pio_reset\<lparr>PIO_PSR := 0, PIO_OSR := 3\<rparr>"
  have both: "bit (3 :: uint32_t) 0 \<and> bit (PIO_PSR ?p) 0 \<and> bit (PIO_OSR ?p) 0"
    by simp
  then have "\<exists>i. bit (3 :: uint32_t) i \<and> bit (PIO_PSR ?p) i \<and> bit (PIO_OSR ?p) i"
    by (rule exI)
  with PIO_GetOutputDataStatus_any_pin [of 3 ?p]
  have one: "fst (run_state (PIO_GetOutputDataStatus 3) ?p) = 1"
    by blast
  have "\<not> (\<exists>i. bit (3 :: uint32_t) i \<and> bit (PIO_PSR ?q) i)"
    by simp
  with PIO_GetOutputDataStatus_any_pin [of 3 ?q]
  have zero: "fst (run_state (PIO_GetOutputDataStatus 3) ?q) = 0"
    by blast
  from both one zero show ?thesis
    by blast
qed

text \<open>
  Claim C9: for every role, mask and register state, \<^verbatim>\<open>PIO_Get\<close> and
  \<^verbatim>\<open>PIO_GetOutputDataStatus\<close> leave the whole register block as it was.
\<close>

theorem PIO_Get_GetOutputDataStatus_frame:
  "snd (run_state (PIO_Get t m) p) = p \<and> snd (run_state (PIO_GetOutputDataStatus m) p) = p"
  by (simp add: PIO_Get_def PIO_GetOutputDataStatus_def Let_def)

section \<open>Rejected roles\<close>

text \<open>
  Claim C5: for every mask and every role among \<^verbatim>\<open>PIO_INPUT\<close>, \<^verbatim>\<open>PIO_OUTPUT_0\<close>,
  \<^verbatim>\<open>PIO_OUTPUT_1\<close> and \<^verbatim>\<open>PIO_NOT_A_PIN\<close>, \<^verbatim>\<open>PIO_SetPeripheral\<close> writes the mask to the
  interrupt-disable register and returns; every other register keeps its value.
\<close>

theorem PIO_SetPeripheral_rejected_role:
  assumes "r \<in> {PIO_INPUT, PIO_OUTPUT_0, PIO_OUTPUT_1, PIO_NOT_A_PIN}"
  shows "run_state (PIO_SetPeripheral r m) p = ((), p\<lparr>PIO_IDR := m\<rparr>)"
  using assms by (auto simp add: PIO_SetPeripheral_returns_early)

theorem PIO_SetPeripheral_rejected_role_witness:
  "PIO_OUTPUT_1 \<in> {PIO_INPUT, PIO_OUTPUT_0, PIO_OUTPUT_1, PIO_NOT_A_PIN}
   \<and> run_state (PIO_SetPeripheral PIO_OUTPUT_1 5) pio_reset = ((), pio_reset\<lparr>PIO_IDR := 5\<rparr>)"
  using PIO_SetPeripheral_rejected_role [of PIO_OUTPUT_1 5 pio_reset] by simp

text \<open>
  Claim C6: for every mask and every attribute set, \<^verbatim>\<open>PIO_Configure\<close> with the role
  \<^verbatim>\<open>PIO_NOT_A_PIN\<close> returns 0 and leaves every register unchanged.
\<close>

theorem PIO_Configure_not_a_pin:
  "run_state (PIO_Configure K PIO_NOT_A_PIN m a) p = (0, p)"
  by (simp add: PIO_Configure_def)

text \<open>
  Claim C4, as stated: \<^verbatim>\<open>PIO_Configure\<close> and \<^verbatim>\<open>PIO_SetPeripheral\<close> both return a failure
  indicator for a role outside their accepted set. \<^verbatim>\<open>PIO_SetPeripheral\<close> is a \<^verbatim>\<open>void\<close>
  function: what it returns for the rejected role \<^verbatim>\<open>PIO_INPUT\<close> is what it returns for
  the accepted role \<^verbatim>\<open>PIO_PERIPH_A\<close>, so no returned value signals the rejection. The
  two calls differ in the registers only: the rejected one stops after the
  interrupt-disable write, the accepted one goes on to the pin-disable write.
\<close>

theorem PIO_SetPeripheral_failure_indicator_counterexample:
  "fst (run_state (PIO_SetPeripheral PIO_INPUT 1) pio_reset) =
   fst (run_state (PIO_SetPeripheral PIO_PERIPH_A 1) pio_reset)
   \<and> snd (run_state (PIO_SetPeripheral PIO_INPUT 1) pio_reset) = pio_reset\<lparr>PIO_IDR := 1\<rparr>
   \<and> snd (run_state (PIO_SetPeripheral PIO_PERIPH_A 1) pio_reset) =
       pio_reset\<lparr>PIO_IDR := 1, PIO_PDR := 1\<rparr>"
  by (simp add: PIO_SetPeripheral_returns_early PIO_SetPeripheral_A pio_reset_def)

text \<open>
  Claim C4, amended: \<^verbatim>\<open>PIO_Configure\<close> returns the value 0 for every role other than
  the four peripheral roles, \<^verbatim>\<open>PIO_INPUT\<close>, \<^verbatim>\<open>PIO_OUTPUT_0\<close> and \<^verbatim>\<open>PIO_OUTPUT_1\<close>, and 1
  for those seven; \<^verbatim>\<open>PIO_SetPeripheral\<close> returns no value, and for every role other
  than the four peripheral roles it returns normally after the interrupt-disable write
  alone. Neither function traps.
\<close>

theorem PIO_Configure_SetPeripheral_invalid_role:
  "fst (run_state (PIO_Configure K t m a) p) =
     (if t \<in> {PIO_PERIPH_A, PIO_PERIPH_B, PIO_PERIPH_C, PIO_PERIPH_D,
               PIO_INPUT, PIO_OUTPUT_0, PIO_OUTPUT_1} then 1 else 0)
   \<and> (r \<notin> {PIO_PERIPH_A, PIO_PERIPH_B, PIO_PERIPH_C, PIO_PERIPH_D}
        \<longrightarrow> run_state (PIO_SetPeripheral r m') p' = ((), p'\<lparr>PIO_IDR := m'\<rparr>))"
proof -
  have "fst (run_state (PIO_Configure K t m a) p) =
     (if t \<in> {PIO_PERIPH_A, PIO_PERIPH_B, PIO_PERIPH_C, PIO_PERIPH_D,
               PIO_INPUT, PIO_OUTPUT_0, PIO_OUTPUT_1} then 1 else 0)"
    by (cases t) (simp_all add: PIO_Configure_returns)
  moreover have "r \<notin> {PIO_PERIPH_A, PIO_PERIPH_B, PIO_PERIPH_C, PIO_PERIPH_D}
        \<longrightarrow> run_state (PIO_SetPeripheral r m') p' = ((), p'\<lparr>PIO_IDR := m'\<rparr>)"
    by (cases r) (simp_all add: PIO_SetPeripheral_returns_early)
  ultimately show ?thesis by (rule conjI)
qed

theorem PIO_Configure_SetPeripheral_invalid_role_witness:
  "PIO_NOT_A_PIN \<notin> {PIO_PERIPH_A, PIO_PERIPH_B, PIO_PERIPH_C, PIO_PERIPH_D}
   \<and> fst (run_state (PIO_Configure sample_macros PIO_NOT_A_PIN 5 1) pio_reset) = 0
   \<and> run_state (PIO_SetPeripheral PIO_NOT_A_PIN 5) pio_reset = ((), pio_reset\<lparr>PIO_IDR := 5\<rparr>)"
  using PIO_Configure_SetPeripheral_invalid_role
          [of sample_macros PIO_NOT_A_PIN 5 1 pio_reset PIO_NOT_A_PIN 5 pio_reset]
  by simp

section \<open>Peripheral multiplexing\<close>

text \<open>
  Claim C3: for every mask and each of the four peripheral roles, after
  \<^verbatim>\<open>PIO_SetPeripheral\<close> the selector registers hold at every bit position of the mask
  the code (selector1, selector0) of the role, A: (0,0), B: (0,1), C: (1,0), D: (1,1);
  the selector bits outside the mask are unchanged; and the pin-disable register holds
  the mask. Selector 0 is \<^verbatim>\<open>PIO_ABCDSR[0]\<close>, selector 1 is \<^verbatim>\<open>PIO_ABCDSR[1]\<close>.
\<close>

theorem PIO_SetPeripheral_selectors:
  assumes "(r, s1, s0) \<in> {(PIO_PERIPH_A, False, False), (PIO_PERIPH_B, False, True),
                           (PIO_PERIPH_C, True, False), (PIO_PERIPH_D, True, True)}"
  shows "(\<forall>i. bit (PIO_ABCDSR_1 (snd (run_state (PIO_SetPeripheral r m) p))) i =
               (if bit m i then s1 else bit (PIO_ABCDSR_1 p) i))
       \<and> (\<forall>i. bit (PIO_ABCDSR_0 (snd (run_state (PIO_SetPeripheral r m) p))) i =
               (if bit m i then s0 else bit (PIO_ABCDSR_0 p) i))
       \<and> PIO_PDR (snd (run_state (PIO_SetPeripheral r m) p)) = m"
proof -
  consider "r = PIO_PERIPH_A" "s1 = False" "s0 = False"
    | "r = PIO_PERIPH_B" "s1 = False" "s0 = True"
    | "r = PIO_PERIPH_C" "s1 = True" "s0 = False"
    | "r = PIO_PERIPH_D" "s1 = True" "s0 = True"
    using assms by auto
  then show ?thesis
  proof cases
    case 1
    then show ?thesis by (simp add: PIO_SetPeripheral_A bit_clear_mask)
  next
    case 2
    then show ?thesis by (simp add: PIO_SetPeripheral_B bit_clear_mask bit_set_mask)
  next
    case 3
    then show ?thesis by (simp add: PIO_SetPeripheral_C bit_clear_mask bit_set_mask)
  next
    case 4
    then show ?thesis by (simp add: PIO_SetPeripheral_D bit_set_mask)
  qed
qed

theorem PIO_SetPeripheral_selectors_witness:
  "(PIO_PERIPH_B, False, True) \<in> {(PIO_PERIPH_A, False, False), (PIO_PERIPH_B, False, True),
                                   (PIO_PERIPH_C, True, False), (PIO_PERIPH_D, True, True)}
   \<and> (\<forall>i. bit (PIO_ABCDSR_1 (snd (run_state (PIO_SetPeripheral PIO_PERIPH_B 5)
                (pio_reset\<lparr>PIO_ABCDSR_0 := 3, PIO_ABCDSR_1 := 6\<rparr>)))) i =
               (if bit (5 :: uint32_t) i then False else bit (6 :: uint32_t) i))
   \<and> (\<forall>i. bit (PIO_ABCDSR_0 (snd (run_state (PIO_SetPeripheral PIO_PERIPH_B 5)
                (pio_reset\<lparr>PIO_ABCDSR_0 := 3, PIO_ABCDSR_1 := 6\<rparr>)))) i =
               (if bit (5 :: uint32_t) i then True else bit (3 :: uint32_t) i))
   \<and> PIO_PDR (snd (run_state (PIO_SetPeripheral PIO_PERIPH_B 5)
                (pio_reset\<lparr>PIO_ABCDSR_0 := 3, PIO_ABCDSR_1 := 6\<rparr>))) = 5"
  using PIO_SetPeripheral_selectors [of PIO_PERIPH_B False True 5
          "pio_reset\<lparr>PIO_ABCDSR_0 := 3, PIO_ABCDSR_1 := 6\<rparr>"]
  by (simp add: pio_reset_def)

text \<open>
  Claim C10: for each of the four peripheral roles, every mask and any two attribute
  sets that agree on the \<^verbatim>\<open>PIO_PULLUP\<close> bit, \<^verbatim>\<open>PIO_Configure\<close> ends in the same register
  state with the same result: the other attribute bits have no influence.
\<close>

theorem PIO_Configure_periph_attributes:
  assumes "r \<in> {PIO_PERIPH_A, PIO_PERIPH_B, PIO_PERIPH_C, PIO_PERIPH_D}"
    and "a1 AND PIO_PULLUP K = a2 AND PIO_PULLUP K"
  shows "run_state (PIO_Configure K r m a1) p = run_state (PIO_Configure K r m a2) p"
  using assms by (auto simp add: PIO_Configure_def PIO_Configure_periph_def)

theorem PIO_Configure_periph_attributes_witness:
  "PIO_PERIPH_C \<in> {PIO_PERIPH_A, PIO_PERIPH_B, PIO_PERIPH_C, PIO_PERIPH_D}
   \<and> (1 :: uint32_t) AND PIO_PULLUP sample_macros = 15 AND PIO_PULLUP sample_macros
   \<and> run_state (PIO_Configure sample_macros PIO_PERIPH_C 5 1) pio_reset
     = run_state (PIO_Configure sample_macros PIO_PERIPH_C 5 15) pio_reset"
  using PIO_Configure_periph_attributes [of PIO_PERIPH_C 1 sample_macros 15 5 pio_reset]
  by (simp add: sample_macros_def)

section \<open>Input filtering\<close>

text \<open>
  Claim C7: for every mask and attribute set, \<^verbatim>\<open>PIO_SetInput\<close> writes the mask to the
  deglitch-select register \<^verbatim>\<open>PIO_IFSCDR\<close> whenever \<^verbatim>\<open>PIO_DEGLITCH\<close> is set, whatever
  \<^verbatim>\<open>PIO_DEBOUNCE\<close> is; writes the mask to the debounce-select register \<^verbatim>\<open>PIO_IFSCER\<close>
  only when \<^verbatim>\<open>PIO_DEBOUNCE\<close> is set and \<^verbatim>\<open>PIO_DEGLITCH\<close> is clear; and never changes
  the debounce-divider register \<^verbatim>\<open>PIO_SCDR\<close>. A select register that is not written
  keeps its value.
\<close>

theorem PIO_SetInput_filter_select:
  "PIO_IFSCDR (snd (run_state (PIO_SetInput K m a) p)) =
     (if a AND PIO_DEGLITCH K \<noteq> 0 then m else PIO_IFSCDR p)
   \<and> PIO_IFSCER (snd (run_state (PIO_SetInput K m a) p)) =
     (if a AND PIO_DEBOUNCE K \<noteq> 0 \<and> a AND PIO_DEGLITCH K = 0 then m else PIO_IFSCER p)
   \<and> PIO_SCDR (snd (run_state (PIO_SetInput K m a) p)) = PIO_SCDR p"
  by (simp add: PIO_SetInput_def PIO_DisableInterrupt_def PIO_PullUp_def
      State_Monad.update_def)

theorem PIO_SetInput_filter_select_witness:
  "PIO_IFSCDR (snd (run_state (PIO_SetInput sample_macros 4 10) pio_reset)) = 4
   \<and> PIO_IFSCER (snd (run_state (PIO_SetInput sample_macros 4 10) pio_reset)) = 0
   \<and> PIO_SCDR (snd (run_state (PIO_SetInput sample_macros 4 10) pio_reset)) = 0"
  using PIO_SetInput_filter_select [of sample_macros 4 10 pio_reset]
  by (simp add: sample_macros_def pio_reset_def)

end
